theory Spec2Isabelle
  imports Complex_Main "HOL-Library.Log_Nat"
begin

section \<open>Values\<close>

text \<open>
  The evaluator of \<^verbatim>\<open>jsonlogic.go\<close> works on Go values of type \<^verbatim>\<open>interface{}\<close> and
  tells them apart by their dynamic type. The dynamic types the package looks at are
  \<^verbatim>\<open>nil\<close>, \<^verbatim>\<open>bool\<close>, \<^verbatim>\<open>int\<close>, \<^verbatim>\<open>float64\<close>, \<^verbatim>\<open>string\<close>, \<^verbatim>\<open>[]interface{}\<close> and
  \<^verbatim>\<open>map[string]interface{}\<close>; a decoded JSON document has all of them but \<^verbatim>\<open>int\<close>.

  A \<^verbatim>\<open>float64\<close> is a finite value, an infinity or NaN. A finite double is a rational
  number and is kept as that number; the two zeros are one value here (Go's \<^verbatim>\<open>==\<close> and
  \<^verbatim>\<open>>\<close> do not tell them apart).
\<close>

datatype float64 = Fin rat | PInf | NInf | NaN

datatype val =
    VNil
  | VBool bool
  | VInt int
  | VFloat float64
  | VString string
  | VSlice "val list"
  | VMap "(string \<times> val) list"

text \<open>
  A map is kept as the list of its entries; a key is looked up with \<^const>\<open>map_of\<close>. A key
  that is absent and a key that holds \<^verbatim>\<open>nil\<close> both read as \<^verbatim>\<open>nil\<close>, as in Go.
\<close>

definition index_map :: "(string \<times> val) list \<Rightarrow> string \<Rightarrow> val" where
  "index_map m k = (case map_of m k of None \<Rightarrow> VNil | Some v \<Rightarrow> v)"

text \<open>
  A run-time panic of the Go program is a value of type \<open>fault\<close>: a failed type assertion
  \<^verbatim>\<open>x.(T)\<close>, an index out of range, the comparison of two slices or two maps held in
  interfaces, and a \<^verbatim>\<open>reflect\<close> assignment to a location of another type. \<open>Unspecified\<close>
  is not a panic: it marks the one place where the Go specification leaves the result of
  an operation to the implementation (the conversion to \<^verbatim>\<open>int\<close> of a \<^verbatim>\<open>float64\<close> that no
  \<^verbatim>\<open>int\<close> represents), and the model stops there.
\<close>

datatype fault = TypeAssertion | IndexOutOfRange | Uncomparable | NotAssignable | Unspecified

subsection \<open>Comparison and conversion of floating-point numbers\<close>

fun gt64 :: "float64 \<Rightarrow> float64 \<Rightarrow> bool" where
  "gt64 NaN y = False"
| "gt64 x NaN = False"
| "gt64 NInf y = False"
| "gt64 x NInf = True"
| "gt64 x PInf = False"
| "gt64 PInf y = True"
| "gt64 (Fin a) (Fin b) = (b < a)"

fun eq64 :: "float64 \<Rightarrow> float64 \<Rightarrow> bool" where
  "eq64 NaN y = False"
| "eq64 x NaN = False"
| "eq64 x y = (x = y)"

definition zero64 :: float64 where
  "zero64 = Fin 0"

text \<open>
  \<^verbatim>\<open>int(f)\<close> truncates towards zero. Where the truncated value is no 64-bit integer (and
  for an infinity or NaN) Go leaves the result to the implementation.
\<close>

definition trunc :: "rat \<Rightarrow> int" where
  "trunc r = (if 0 \<le> r then \<lfloor>r\<rfloor> else \<lceil>r\<rceil>)"

fun int_of_float64 :: "float64 \<Rightarrow> fault + int" where
  "int_of_float64 (Fin r) =
     (if - (2 ^ 63) \<le> trunc r \<and> trunc r < 2 ^ 63 then Inr (trunc r) else Inl Unspecified)"
| "int_of_float64 f = Inl Unspecified"

text \<open>
  \<^verbatim>\<open>float64(v)\<close> for a 64-bit integer \<open>v\<close>: exact up to 53 bits, rounded to the nearest
  double (ties to even) beyond.
\<close>

definition float64_of_int :: "int \<Rightarrow> float64" where
  "float64_of_int v =
     (let a = \<bar>v\<bar>; e = bitlen a - 53
      in if e \<le> 0 then Fin (of_int v)
         else let q = a div 2 ^ nat e;
                  r = a mod 2 ^ nat e;
                  h = 2 ^ (nat e - 1);
                  q' = (if h < r \<or> (r = h \<and> odd q) then q + 1 else q)
              in Fin (of_int (sgn v * q' * 2 ^ nat e)))"

subsection \<open>Package strconv and package strings\<close>

text \<open>
  \<^verbatim>\<open>strconv.ParseFloat(s, 64)\<close> and \<^verbatim>\<open>strconv.FormatFloat(f, 'f', -1, 64)\<close> belong to the Go
  library, not to this package; the evaluator takes them as a parameter. \<open>ParseFloat\<close>
  gives \<open>None\<close> for a string that is no number (Go returns 0 and a syntax error) and the
  value Go returns otherwise, which is an infinity for a number out of range. The
  evaluator drops the error that Go returns beside the value.
\<close>

record strconv =
  ParseFloat :: "string \<Rightarrow> float64 option"
  FormatFloat :: "float64 \<Rightarrow> string"

definition parse_or_zero :: "strconv \<Rightarrow> string \<Rightarrow> float64" where
  \<comment> \<open>\<^verbatim>\<open>w, _ = strconv.ParseFloat(s, 64)\<close>\<close>
  "parse_or_zero sc s = (case ParseFloat sc s of None \<Rightarrow> zero64 | Some w \<Rightarrow> w)"

text \<open>Go compares strings byte by byte; a proper prefix is the smaller string.\<close>

fun str_gt :: "string \<Rightarrow> string \<Rightarrow> bool" where
  "str_gt [] t = False"
| "str_gt (x # s) [] = True"
| "str_gt (x # s) (y # t) =
     ((of_char y :: nat) < of_char x \<or> (x = y \<and> str_gt s t))"

text \<open>\<^verbatim>\<open>strings.Split(s, ".")\<close>: the pieces between the separators, at least one piece.\<close>

fun split_on :: "char \<Rightarrow> string \<Rightarrow> string list" where
  "split_on c [] = [[]]"
| "split_on c (x # s) =
     (if x = c then [] # split_on c s
      else (case split_on c s of [] \<Rightarrow> [[x]] | p # ps \<Rightarrow> (x # p) # ps))"

text \<open>\<^verbatim>\<open>strings.HasPrefix\<close> and \<^verbatim>\<open>strings.Contains\<close>.\<close>

fun has_prefix :: "string \<Rightarrow> string \<Rightarrow> bool" where
  "has_prefix s [] = True"
| "has_prefix [] (y # p) = False"
| "has_prefix (x # s) (y # p) = (x = y \<and> has_prefix s p)"

fun contains :: "string \<Rightarrow> string \<Rightarrow> bool" where
  "contains [] sub = (sub = [])"
| "contains (x # s) sub = (has_prefix (x # s) sub \<or> contains s sub)"

section \<open>The kinds of a value\<close>

text \<open>
  \<^verbatim>\<open>reflect.Kind\<close>, as far as the package meets it. As the type of the location that
  receives a result, \<open>KSlice\<close> stands for \<^verbatim>\<open>[]interface{}\<close>, \<open>KMap\<close> for
  \<^verbatim>\<open>map[string]interface{}\<close>, \<open>KInterface\<close> for \<^verbatim>\<open>interface{}\<close> and \<open>KOther\<close> for every
  type that holds none of the values above.
\<close>

datatype kind =
  KInvalid | KBool | KInt | KFloat64 | KString | KSlice | KMap | KInterface | KOther

fun kindOf :: "val \<Rightarrow> kind" where
  "kindOf VNil = KInvalid"
| "kindOf (VBool b) = KBool"
| "kindOf (VInt i) = KInt"
| "kindOf (VFloat f) = KFloat64"
| "kindOf (VString s) = KString"
| "kindOf (VSlice xs) = KSlice"
| "kindOf (VMap m) = KMap"

definition is_v :: "val \<Rightarrow> kind \<Rightarrow> bool" where
  "is_v obj k = (obj \<noteq> VNil \<and> kindOf obj = k)"

definition isBool :: "val \<Rightarrow> bool" where
  "isBool obj = is_v obj KBool"

definition isString :: "val \<Rightarrow> bool" where
  "isString obj = is_v obj KString"

definition isNumber :: "val \<Rightarrow> bool" where
  "isNumber obj = (is_v obj KInt \<or> is_v obj KFloat64)"

definition isPrimitive :: "val \<Rightarrow> bool" where
  "isPrimitive obj = (isBool obj \<or> isString obj \<or> isNumber obj)"

definition isMap :: "val \<Rightarrow> bool" where
  "isMap obj = is_v obj KMap"

definition isSlice :: "val \<Rightarrow> bool" where
  "isSlice obj = is_v obj KSlice"

subsection \<open>Type assertions, indexing, sequencing\<close>

fun bind_f :: "fault + 'a \<Rightarrow> ('a \<Rightarrow> fault + 'b) \<Rightarrow> fault + 'b" where
  "bind_f (Inl e) k = Inl e"
| "bind_f (Inr x) k = k x"

text \<open>\<^verbatim>\<open>x && y\<close> and \<^verbatim>\<open>x || y\<close>: the right operand runs only when the left one asks for it.\<close>

fun and_also :: "fault + bool \<Rightarrow> fault + bool \<Rightarrow> fault + bool" where
  "and_also (Inl e) y = Inl e"
| "and_also (Inr x) y = (if x then y else Inr False)"

fun or_else :: "fault + bool \<Rightarrow> fault + bool \<Rightarrow> fault + bool" where
  "or_else (Inl e) y = Inl e"
| "or_else (Inr x) y = (if x then Inr True else y)"

fun as_bool :: "val \<Rightarrow> fault + bool" where
  "as_bool (VBool b) = Inr b"
| "as_bool v = Inl TypeAssertion"

fun as_float64 :: "val \<Rightarrow> fault + float64" where
  "as_float64 (VFloat f) = Inr f"
| "as_float64 v = Inl TypeAssertion"

fun as_string :: "val \<Rightarrow> fault + string" where
  "as_string (VString s) = Inr s"
| "as_string v = Inl TypeAssertion"

fun as_slice :: "val \<Rightarrow> fault + val list" where
  "as_slice (VSlice xs) = Inr xs"
| "as_slice v = Inl TypeAssertion"

fun as_map :: "val \<Rightarrow> fault + (string \<times> val) list" where
  "as_map (VMap m) = Inr m"
| "as_map v = Inl TypeAssertion"

definition index :: "val list \<Rightarrow> int \<Rightarrow> fault + val" where
  "index xs i =
     (if 0 \<le> i \<and> i < int (length xs) then Inr (xs ! nat i) else Inl IndexOutOfRange)"

text \<open>
  \<^verbatim>\<open>v == value\<close> on two interfaces: false for values of two dynamic types, the comparison
  of the type for two values of one comparable type, a panic for two slices or two maps.
\<close>

fun iface_eq :: "val \<Rightarrow> val \<Rightarrow> fault + bool" where
  "iface_eq (VSlice a) (VSlice b) = Inl Uncomparable"
| "iface_eq (VMap a) (VMap b) = Inl Uncomparable"
| "iface_eq (VFloat a) (VFloat b) = Inr (eq64 a b)"
| "iface_eq a b = Inr (a = b)"

section \<open>The coercing comparisons\<close>

definition less_v :: "strconv \<Rightarrow> val \<Rightarrow> val \<Rightarrow> fault + bool" where
  "less_v sc a b =
     (case a of
        VFloat v \<Rightarrow>
          bind_f (if isString b then bind_f (as_string b) (\<lambda>s. Inr (parse_or_zero sc s))
                  else as_float64 b)
            (\<lambda>w. Inr (gt64 w v))
      | VString v \<Rightarrow>
          bind_f (if isNumber b then bind_f (as_float64 b) (\<lambda>f. Inr (FormatFloat sc f))
                  else as_string b)
            (\<lambda>w. Inr (str_gt w v))
      | _ \<Rightarrow> Inr False)"

definition equals :: "strconv \<Rightarrow> val \<Rightarrow> val \<Rightarrow> fault + bool" where
  "equals sc a b =
     (case a of
        VFloat v \<Rightarrow>
          bind_f (if isString b then bind_f (as_string b) (\<lambda>s. Inr (parse_or_zero sc s))
                  else as_float64 b)
            (\<lambda>w. Inr (eq64 v w))
      | VString v \<Rightarrow> bind_f (as_string b) (\<lambda>w. Inr (v = w))
      | _ \<Rightarrow> Inr False)"

definition hardEquals :: "strconv \<Rightarrow> val \<Rightarrow> val \<Rightarrow> fault + bool" where
  "hardEquals sc a b = (if kindOf a \<noteq> kindOf b then Inr False else equals sc a b)"

definition between :: "strconv \<Rightarrow> string \<Rightarrow> val list \<Rightarrow> val \<Rightarrow> fault + val" where
  "between sc operator values data =
     bind_f (index values 0) (\<lambda>a.
     bind_f (index values 1) (\<lambda>b.
     bind_f (index values 2) (\<lambda>c.
       if operator = ''<'' then
         bind_f (and_also (less_v sc a b) (less_v sc b c)) (\<lambda>r. Inr (VBool r))
       else if operator = ''<='' then
         bind_f (and_also (or_else (less_v sc a b) (equals sc a b))
                          (or_else (less_v sc b c) (equals sc b c)))
           (\<lambda>r. Inr (VBool r))
       else Inr (VBool False))))"

section \<open>The logical operators and membership\<close>

definition unary :: "string \<Rightarrow> val \<Rightarrow> fault + val" where
  "unary operator v =
     bind_f (if isBool v then as_bool v else Inr False) (\<lambda>b0.
     bind_f (if isNumber v then bind_f (as_float64 v) (\<lambda>f. Inr (gt64 f zero64)) else Inr b0)
       (\<lambda>b. Inr (VBool (if operator = ''!'' then \<not> b else b))))"

text \<open>
  The loop of \<^verbatim>\<open>_and\<close> carries \<open>r\<close>, the conjunction of the booleans met, and \<open>v\<close>, the
  greatest number met, which starts at zero.
\<close>

fun and_loop :: "val list \<Rightarrow> bool \<Rightarrow> float64 \<Rightarrow> fault + (bool \<times> float64)" where
  "and_loop [] r v = Inr (r, v)"
| "and_loop (x # xs) r v =
     (if isBool x then bind_f (as_bool x) (\<lambda>b. and_loop xs (r \<and> b) v)
      else bind_f (as_float64 x) (\<lambda>f. and_loop xs r (if gt64 f v then f else v)))"

definition and_v :: "val list \<Rightarrow> fault + val" where
  "and_v values =
     bind_f (and_loop values True zero64)
       (\<lambda>(r, v). Inr (if r \<and> gt64 v zero64 then VFloat v else VBool r))"

fun or_v :: "val list \<Rightarrow> fault + val" where
  "or_v [] = Inr (VBool False)"
| "or_v (x # xs) =
     (if isBool x \<and> as_bool x = Inr True then Inr (VBool True)
      else if isNumber x then
        bind_f (as_float64 x) (\<lambda>f. if gt64 f zero64 then Inr x else or_v xs)
      else or_v xs)"

fun in_loop :: "val list \<Rightarrow> val \<Rightarrow> fault + bool" where
  "in_loop [] x = Inr False"
| "in_loop (v # vs) x = bind_f (iface_eq v x) (\<lambda>e. if e then Inr True else in_loop vs x)"

definition in_v :: "val \<Rightarrow> val \<Rightarrow> fault + bool" where
  "in_v x values =
     (if isString values then
        bind_f (as_string values) (\<lambda>h. bind_f (as_string x) (\<lambda>n. Inr (contains h n)))
      else bind_f (as_slice values) (\<lambda>vs. in_loop vs x))"

section \<open>Variable resolution\<close>

definition getVarFromData :: "string \<Rightarrow> val \<Rightarrow> val \<Rightarrow> fault + val" where
  "getVarFromData k data originalValue =
     (if \<not> isMap data then Inr VNil
      else
        bind_f (as_map data) (\<lambda>m.
        bind_f (if index_map m k = VNil \<and> isSlice originalValue
                then bind_f (as_slice originalValue) (\<lambda>ov. index ov 1)
                else Inr (index_map m k))
          (\<lambda>parsedValue.
             if parsedValue = VNil then Inr VNil
             else (case parsedValue of
                     VInt v \<Rightarrow> Inr (VFloat (float64_of_int v))
                   | v \<Rightarrow> Inr v))))"

fun getVar_loop :: "string list \<Rightarrow> val \<Rightarrow> val \<Rightarrow> fault + val" where
  "getVar_loop [] d originalValue = Inr d"
| "getVar_loop (part # parts) d originalValue =
     bind_f (getVarFromData part d originalValue) (\<lambda>d'. getVar_loop parts d' originalValue)"

definition getVar :: "val \<Rightarrow> val \<Rightarrow> fault + val" where
  "getVar v data =
     (if data = VNil then Inr v
      else if isSlice v then
        bind_f (as_slice v) (\<lambda>xs.
        bind_f (index xs 0) (\<lambda>p.
        bind_f (as_string p) (\<lambda>parsed. getVar_loop (split_on CHR ''.'' parsed) data v)))
      else if isNumber v then
        bind_f (as_float64 v) (\<lambda>f.
        bind_f (int_of_float64 f) (\<lambda>i.
        bind_f (as_slice data) (\<lambda>xs. index xs i)))
      else bind_f (as_string v) (\<lambda>parsed. getVar_loop (split_on CHR ''.'' parsed) data v))"

section \<open>Dispatch\<close>

definition args2 :: "val list \<Rightarrow> (val \<Rightarrow> val \<Rightarrow> fault + bool) \<Rightarrow> fault + val" where
  \<comment> \<open>a call \<^verbatim>\<open>f(parsed[0], parsed[1])\<close> whose boolean result is returned as a value\<close>
  "args2 parsed f =
     bind_f (index parsed 0) (\<lambda>a.
     bind_f (index parsed 1) (\<lambda>b.
     bind_f (f a b) (\<lambda>r. Inr (VBool r))))"

definition negate :: "fault + bool \<Rightarrow> fault + bool" where
  "negate x = bind_f x (\<lambda>r. Inr (\<not> r))"

definition operation :: "strconv \<Rightarrow> string \<Rightarrow> val \<Rightarrow> val \<Rightarrow> fault + val" where
  "operation sc operator values data =
     (if operator = ''var'' then getVar values data
      else if isPrimitive values then unary operator values
      else
        bind_f (as_slice values) (\<lambda>parsed.
          if length parsed = 1 then
            bind_f (index parsed 0) (\<lambda>x. bind_f (as_bool x) (\<lambda>b. unary operator (VBool b)))
          else if operator = ''and'' then and_v parsed
          else if operator = ''or'' then or_v parsed
          else if operator = ''?:'' then
            bind_f (index parsed 0) (\<lambda>c.
            bind_f (as_bool c) (\<lambda>b. if b then index parsed 1 else index parsed 2))
          else if operator = ''in'' then args2 parsed in_v
          else if length parsed = 3 then between sc operator parsed data
          else if operator = ''<'' then args2 parsed (less_v sc)
          else if operator = ''>'' then args2 parsed (\<lambda>a b. less_v sc b a)
          else if operator = ''<='' then
            args2 parsed (\<lambda>a b. or_else (less_v sc a b) (equals sc a b))
          else if operator = ''>='' then
            args2 parsed (\<lambda>a b. or_else (less_v sc b a) (equals sc a b))
          else if operator = ''==='' then args2 parsed (hardEquals sc)
          else if operator = ''!='' then args2 parsed (\<lambda>a b. negate (equals sc a b))
          else if operator = ''!=='' then args2 parsed (\<lambda>a b. negate (hardEquals sc a b))
          else args2 parsed (equals sc)))"

text \<open>
  \<^verbatim>\<open>apply\<close> ranges over the map of the rule and returns in the first round, so it reads
  one entry; for a rule with one key that is the entry. For a map with more keys Go
  picks the entry; the model takes the head of the entry list, so that the order of the
  list stands for the order of that run. \<^verbatim>\<open>parseValues\<close> evaluates the operands that
  are maps; \<open>parseList\<close> is its loop.
\<close>

fun apply_v :: "strconv \<Rightarrow> val \<Rightarrow> val \<Rightarrow> fault + val"
  and parseValues :: "strconv \<Rightarrow> val \<Rightarrow> val \<Rightarrow> fault + val"
  and parseList :: "strconv \<Rightarrow> val list \<Rightarrow> val \<Rightarrow> fault + val list"
where
  "apply_v sc (VMap []) data = Inr (VBool False)"
| "apply_v sc (VMap ((operator, values) # rest)) data =
     (case parseValues sc values data of
        Inl e \<Rightarrow> Inl e
      | Inr parsed \<Rightarrow> operation sc operator parsed data)"
| "apply_v sc VNil data = Inl TypeAssertion"
| "apply_v sc (VBool b) data = Inl TypeAssertion"
| "apply_v sc (VInt i) data = Inl TypeAssertion"
| "apply_v sc (VFloat f) data = Inl TypeAssertion"
| "apply_v sc (VString s) data = Inl TypeAssertion"
| "apply_v sc (VSlice xs) data = Inl TypeAssertion"
| "parseValues sc (VSlice xs) data =
     (case parseList sc xs data of Inl e \<Rightarrow> Inl e | Inr parsed \<Rightarrow> Inr (VSlice parsed))"
| "parseValues sc VNil data = Inl TypeAssertion"
| "parseValues sc (VMap m) data = Inl TypeAssertion"
| "parseValues sc (VBool b) data = Inr (VBool b)"
| "parseValues sc (VInt i) data = Inr (VInt i)"
| "parseValues sc (VFloat f) data = Inr (VFloat f)"
| "parseValues sc (VString s) data = Inr (VString s)"
| "parseList sc [] data = Inr []"
| "parseList sc (v # vs) data =
     (case (if isMap v then apply_v sc v data else Inr v) of
        Inl e \<Rightarrow> Inl e
      | Inr r \<Rightarrow> (case parseList sc vs data of Inl e \<Rightarrow> Inl e | Inr rs \<Rightarrow> Inr (r # rs)))"

section \<open>The entry point\<close>

text \<open>
  The third argument of \<^verbatim>\<open>Apply\<close> is the location of the result, as \<^verbatim>\<open>reflect\<close> sees
  it: something that is no pointer (also \<^verbatim>\<open>nil\<close>), a nil pointer, or a pointer to a
  location of some type that can or cannot be set.
\<close>

datatype result_arg = NotPointer | NilPointer | Pointer bool kind

definition assignable :: "val \<Rightarrow> kind \<Rightarrow> bool" where
  "assignable r target =
     (target = KInterface \<or> (target \<in> {KInt, KSlice, KMap} \<and> kindOf r = target))"

text \<open>\<open>convertToResult\<close> gives the value it has stored, or \<open>None\<close> when it stores nothing.\<close>

definition convertToResult :: "kind \<Rightarrow> val \<Rightarrow> fault + val option" where
  "convertToResult target r =
     (case target of
        KFloat64 \<Rightarrow> bind_f (as_float64 r) (\<lambda>f. Inr (Some (VFloat f)))
      | KString \<Rightarrow> bind_f (as_string r) (\<lambda>s. Inr (Some (VString s)))
      | KBool \<Rightarrow> bind_f (as_bool r) (\<lambda>b. Inr (Some (VBool b)))
      | _ \<Rightarrow> if r = VNil then Inr None
             else if assignable r target then Inr (Some r)
             else Inl NotAssignable)"

text \<open>
  \<open>Apply\<close> gives the error it returns (\<open>None\<close> for \<^verbatim>\<open>nil\<close>) and the value left in the
  location of the result; a panic that leaves \<open>Apply\<close> is \<open>Inl\<close>.
\<close>

definition Apply :: "strconv \<Rightarrow> val \<Rightarrow> val \<Rightarrow> result_arg \<Rightarrow> fault + (string option \<times> val option)"
  where
  "Apply sc rules data result =
     (case result of
        NotPointer \<Rightarrow> Inr (Some ''Result must be a pointer'', None)
      | NilPointer \<Rightarrow> Inr (Some ''Result must be a pointer'', None)
      | Pointer canSet target \<Rightarrow>
          if \<not> canSet then Inr (Some ''Result must be addressable'', None)
          else if isMap rules then
            bind_f (apply_v sc rules data) (\<lambda>r.
            bind_f (convertToResult target r) (\<lambda>stored. Inr (None, stored)))
          else bind_f (convertToResult target rules) (\<lambda>stored. Inr (None, stored)))"

section \<open>Notions of the specification\<close>

text \<open>
  What the specification calls the coercion of the second operand of a comparison: to a
  number when the first operand is a number, to a string when it is a string. Operands
  of another kind have no coercion.
\<close>

definition numeric_coercion :: "strconv \<Rightarrow> val \<Rightarrow> float64 option" where
  "numeric_coercion sc b =
     (case b of
        VFloat w \<Rightarrow> Some w
      | VString s \<Rightarrow> Some (case ParseFloat sc s of Some w \<Rightarrow> w | None \<Rightarrow> Fin 0)
      | _ \<Rightarrow> None)"

definition string_coercion :: "strconv \<Rightarrow> val \<Rightarrow> string option" where
  "string_coercion sc b =
     (case b of
        VFloat w \<Rightarrow> Some (FormatFloat sc w)
      | VString s \<Rightarrow> Some s
      | _ \<Rightarrow> None)"

text \<open>The byte order on characters, and the strings that follow a string in the dictionary.\<close>

definition byte_less :: "(char \<times> char) set" where
  "byte_less = {(x, y). (of_char x :: nat) < of_char y}"

text \<open>
  The operands of \<^verbatim>\<open>and\<close>: a boolean or a number each. \<open>is_max_number vs m\<close> says that
  \<open>m\<close> is a positive number among \<open>vs\<close> that no number among \<open>vs\<close> exceeds.
\<close>

definition and_operand :: "val \<Rightarrow> bool" where
  "and_operand v = (isBool v \<or> is_v v KFloat64)"

definition positive :: "val \<Rightarrow> bool" where
  "positive v = (case v of VFloat f \<Rightarrow> gt64 f zero64 | _ \<Rightarrow> False)"

definition exceeds :: "float64 \<Rightarrow> val \<Rightarrow> bool" where
  "exceeds m v = (case v of VFloat f \<Rightarrow> gt64 f m | _ \<Rightarrow> False)"

definition is_max_number :: "val list \<Rightarrow> float64 \<Rightarrow> bool" where
  "is_max_number vs m =
     (VFloat m \<in> set vs \<and> gt64 m zero64 \<and> list_all (\<lambda>v. \<not> exceeds m v) vs)"

text \<open>A list of operands that is one number and nothing else.\<close>

definition single_number :: "val list \<Rightarrow> bool" where
  "single_number vs = (case vs of [VFloat f] \<Rightarrow> True | _ \<Rightarrow> False)"

text \<open>The values that Go compares with \<^verbatim>\<open>==\<close> without a panic, whatever the other side.\<close>

definition comparable :: "val \<Rightarrow> bool" where
  "comparable v = (\<not> isSlice v \<and> \<not> isMap v)"

text \<open>The conversion that \<^verbatim>\<open>getVarFromData\<close> applies to what it has found.\<close>

definition normalized :: "val \<Rightarrow> val" where
  "normalized v = (case v of VInt i \<Rightarrow> VFloat (float64_of_int i) | _ \<Rightarrow> v)"

text \<open>A result argument that passes the two checks of \<^verbatim>\<open>Apply\<close>.\<close>

definition valid_result :: "result_arg \<Rightarrow> bool" where
  "valid_result result = (case result of Pointer canSet target \<Rightarrow> canSet | _ \<Rightarrow> False)"

text \<open>
  For the examples, a table that holds the part of \<^verbatim>\<open>strconv\<close> they need: the numerals
  \<^verbatim>\<open>10\<close> and \<^verbatim>\<open>2\<close>, and strings that are no numbers.
\<close>

definition sample_strconv :: strconv where
  "sample_strconv =
     \<lparr>ParseFloat = (\<lambda>s. if s = ''10'' then Some (Fin 10)
                         else if s = ''2'' then Some (Fin 2) else None),
      FormatFloat = (\<lambda>f. if f = Fin 10 then ''10'' else if f = Fin 2 then ''2'' else [])\<rparr>"

section \<open>Basic facts\<close>

lemma isBool_iff: "isBool v = (\<exists>b. v = VBool b)"
  by (cases v) (simp_all add: isBool_def is_v_def)

lemma isString_iff: "isString v = (\<exists>s. v = VString s)"
  by (cases v) (simp_all add: isString_def is_v_def)

lemma isNumber_iff: "isNumber v = ((\<exists>i. v = VInt i) \<or> (\<exists>f. v = VFloat f))"
  by (cases v) (simp_all add: isNumber_def is_v_def)

lemma isMap_iff: "isMap v = (\<exists>m. v = VMap m)"
  by (cases v) (simp_all add: isMap_def is_v_def)

lemma isSlice_iff: "isSlice v = (\<exists>xs. v = VSlice xs)"
  by (cases v) (simp_all add: isSlice_def is_v_def)

lemma isFloat_iff: "is_v v KFloat64 = (\<exists>f. v = VFloat f)"
  by (cases v) (simp_all add: is_v_def)

lemmas kind_iffs = isBool_iff isString_iff isNumber_iff isMap_iff isSlice_iff isFloat_iff

lemma isPrimitive_iff:
  "isPrimitive v = ((\<exists>b. v = VBool b) \<or> (\<exists>s. v = VString s) \<or> (\<exists>i. v = VInt i) \<or> (\<exists>f. v = VFloat f))"
  by (simp add: isPrimitive_def kind_iffs)

text \<open>The two functions of the evaluator in the shape of the source.\<close>

lemma parseValues_unfold:
  "parseValues sc values data =
     (if isPrimitive values then Inr values
      else bind_f (as_slice values) (\<lambda>xs.
             bind_f (parseList sc xs data) (\<lambda>parsed. Inr (VSlice parsed))))"
  by (cases "values") (auto simp: isPrimitive_iff split: sum.splits)

lemma apply_v_unfold:
  "apply_v sc rules data =
     bind_f (as_map rules) (\<lambda>m.
       case m of
         [] \<Rightarrow> Inr (VBool False)
       | (operator, values) # rest \<Rightarrow>
           bind_f (parseValues sc values data) (\<lambda>parsed. operation sc operator parsed data))"
proof (cases rules)
  case (VMap m)
  then show ?thesis
    by (cases m) (auto split: sum.splits)
qed simp_all

text \<open>Operands that hold no rule pass \<^verbatim>\<open>parseValues\<close> unchanged.\<close>

lemma parseList_plain:
  "list_all (\<lambda>v. \<not> isMap v) vs \<Longrightarrow> parseList sc vs data = Inr vs"
  by (induction vs) simp_all

lemmas eval_defs = getVar_def getVarFromData_def operation_def index_def index_map_def
  kind_iffs isPrimitive_iff

lemma split_on_nonempty: "split_on c s \<noteq> []"
  by (induction s) (auto split: list.splits)

lemma split_on_no_sep: "c \<notin> set s \<Longrightarrow> split_on c s = [s]"
  by (induction s) auto

text \<open>Once the walk along a path has left the objects, it stays at \<^verbatim>\<open>nil\<close>.\<close>

lemma getVar_loop_nil: "parts \<noteq> [] \<Longrightarrow> \<not> isMap d \<Longrightarrow> getVar_loop parts d ov = Inr VNil"
proof (induction parts arbitrary: d)
  case Nil
  then show ?case by simp
next
  case (Cons p ps)
  show ?case
  proof (cases ps)
    case Nil
    with Cons.prems show ?thesis by (simp add: getVarFromData_def)
  next
    case (Cons q qs)
    have "getVar_loop ps VNil ov = Inr VNil"
      using Cons.IH[of VNil] Cons by (simp add: isMap_iff)
    with Cons.prems show ?thesis by (simp add: getVarFromData_def)
  qed
qed

section \<open>The comparison \<^verbatim>\<open>less\<close> (C2)\<close>

lemma str_gt_lexord: "str_gt w v = ((v, w) \<in> lexord byte_less)"
  by (induction w v rule: str_gt.induct) (auto simp: byte_less_def)

text \<open>
  C2: with a number \<open>v\<close> as first operand, \<^verbatim>\<open>less\<close> is true exactly when the numeric
  coercion of the second operand (the operand itself if it is a number, what
  \<^verbatim>\<open>ParseFloat\<close> gives if it is a string, zero if the string is no number) is greater than
  \<open>v\<close>. With a string \<open>s\<close> as first operand, it is true exactly when the string coercion
  of the second operand (its decimal form if it is a number, itself if it is a string)
  follows \<open>s\<close> in the lexical order of bytes. A second operand that has no coercion is
  a failed type assertion.
\<close>

theorem less_coerces_second_operand:
  "less_v sc (VFloat v) b =
     (case numeric_coercion sc b of Some w \<Rightarrow> Inr (gt64 w v) | None \<Rightarrow> Inl TypeAssertion)
   \<and> less_v sc (VString s) b =
     (case string_coercion sc b of
        Some w \<Rightarrow> Inr ((s, w) \<in> lexord byte_less)
      | None \<Rightarrow> Inl TypeAssertion)"
  by (cases b)
     (simp_all add: less_v_def numeric_coercion_def string_coercion_def kind_iffs
        parse_or_zero_def zero64_def str_gt_lexord split: option.splits)

text \<open>\<^verbatim>\<open>5 < "10"\<close>, not \<^verbatim>\<open>5 < "abc"\<close>, and \<^verbatim>\<open>"10" < 2\<close> as strings.\<close>

theorem less_coerces_second_operand_witness:
  "less_v sample_strconv (VFloat (Fin 5)) (VString ''10'') = Inr True
   \<and> less_v sample_strconv (VFloat (Fin 5)) (VString ''abc'') = Inr False
   \<and> less_v sample_strconv (VString ''10'') (VFloat (Fin 2)) = Inr True"
proof -
  have "(''10'', ''2'') \<in> lexord byte_less"
    by (simp add: byte_less_def)
  then show ?thesis
    using less_coerces_second_operand [of sample_strconv "Fin 5" "VString ''10''" "''10''"]
      less_coerces_second_operand [of sample_strconv "Fin 5" "VString ''abc''" "''10''"]
      less_coerces_second_operand [of sample_strconv "Fin 5" "VFloat (Fin 2)" "''10''"]
    by (simp add: numeric_coercion_def string_coercion_def sample_strconv_def)
qed

section \<open>The operator \<^verbatim>\<open>and\<close> (C3)\<close>

lemma gt64_irrefl: "\<not> gt64 a a"
  by (cases a) simp_all

lemma gt64_trans: "gt64 a b \<Longrightarrow> gt64 b c \<Longrightarrow> gt64 a c"
  by (cases a; cases b; cases c) simp_all

lemma gt64_asym: "gt64 a b \<Longrightarrow> \<not> gt64 b a"
  using gt64_trans gt64_irrefl by blast

lemma gt64_connected: "gt64 a z \<Longrightarrow> gt64 b z \<Longrightarrow> \<not> gt64 a b \<Longrightarrow> \<not> gt64 b a \<Longrightarrow> a = b"
  by (cases a; cases b; cases z) simp_all

lemma and_operand_cases:
  "and_operand v = ((\<exists>b. v = VBool b) \<or> (\<exists>f. v = VFloat f))"
  by (simp add: and_operand_def kind_iffs)

lemma positive_iff: "positive v = (\<exists>f. v = VFloat f \<and> gt64 f zero64)"
  by (cases v) (simp_all add: positive_def)

text \<open>
  The loop, started with the conjunction \<open>r\<close> and the number \<open>v\<close>: it ends with the
  conjunction of \<open>r\<close> and the booleans of the list, and with \<open>v\<close> or a number of the list
  above \<open>v\<close>, which no number of the list exceeds.
\<close>

lemma and_loop_invariant:
  "list_all and_operand vs \<Longrightarrow>
   \<exists>v'. and_loop vs r v = Inr (r \<and> VBool False \<notin> set vs, v')
        \<and> (v' = v \<or> (VFloat v' \<in> set vs \<and> gt64 v' v))
        \<and> (\<forall>f. VFloat f \<in> set vs \<longrightarrow> \<not> gt64 f v')"
proof (induction vs arbitrary: r v)
  case Nil
  then show ?case by simp
next
  case (Cons x xs)
  from Cons.prems have xs: "list_all and_operand xs" and x: "and_operand x"
    by simp_all
  from x consider (bool) b where "x = VBool b" | (num) f where "x = VFloat f"
    by (auto simp: and_operand_cases)
  then show ?case
  proof cases
    case bool
    from Cons.IH[OF xs, of "r \<and> b" v] obtain v' where
      "and_loop xs (r \<and> b) v = Inr ((r \<and> b) \<and> VBool False \<notin> set xs, v')"
      "v' = v \<or> (VFloat v' \<in> set xs \<and> gt64 v' v)"
      "\<forall>f. VFloat f \<in> set xs \<longrightarrow> \<not> gt64 f v'"
      by blast
    with bool show ?thesis
      by (cases b) (auto simp: isBool_iff)
  next
    case num
    define v1 where "v1 = (if gt64 f v then f else v)"
    from Cons.IH[OF xs, of r v1] obtain v' where
      run: "and_loop xs r v1 = Inr (r \<and> VBool False \<notin> set xs, v')"
      and from_v1: "v' = v1 \<or> (VFloat v' \<in> set xs \<and> gt64 v' v1)"
      and top: "\<forall>g. VFloat g \<in> set xs \<longrightarrow> \<not> gt64 g v'"
      by blast
    have 1: "and_loop (x # xs) r v = Inr (r \<and> VBool False \<notin> set (x # xs), v')"
      using run num by (simp add: isBool_iff v1_def)
    have 2: "v' = v \<or> (VFloat v' \<in> set (x # xs) \<and> gt64 v' v)"
      using from_v1 num by (auto simp: v1_def dest: gt64_trans split: if_splits)
    have "\<not> gt64 f v'"
      using from_v1 by (auto simp: v1_def gt64_irrefl dest: gt64_trans gt64_asym split: if_splits)
    with top num have 3: "\<forall>g. VFloat g \<in> set (x # xs) \<longrightarrow> \<not> gt64 g v'"
      by auto
    from 1 2 3 show ?thesis by blast
  qed
qed

lemma is_max_number_unique: "is_max_number vs m \<Longrightarrow> is_max_number vs m' \<Longrightarrow> m = m'"
proof -
  assume a: "is_max_number vs m" and b: "is_max_number vs m'"
  then have "\<not> gt64 m m'" "\<not> gt64 m' m"
    by (auto simp: is_max_number_def list_all_iff exceeds_def)
  moreover from a b have "gt64 m zero64" "gt64 m' zero64"
    by (simp_all add: is_max_number_def)
  ultimately show "m = m'"
    by (rule_tac gt64_connected)
qed

lemma and_v_result:
  assumes "list_all and_operand vs"
  shows "\<exists>r. and_v vs = Inr r
     \<and> (if VBool False \<notin> set vs \<and> list_ex positive vs
         then \<exists>m. r = VFloat m \<and> is_max_number vs m
         else r = VBool (VBool False \<notin> set vs))"
proof -
  from and_loop_invariant[OF assms, of True zero64] obtain v' where
    run: "and_loop vs True zero64 = Inr (VBool False \<notin> set vs, v')"
    and orig: "v' = zero64 \<or> (VFloat v' \<in> set vs \<and> gt64 v' zero64)"
    and top: "\<forall>f. VFloat f \<in> set vs \<longrightarrow> \<not> gt64 f v'"
    by auto
  have pos: "list_ex positive vs = gt64 v' zero64"
  proof
    assume "list_ex positive vs"
    then obtain f where f: "VFloat f \<in> set vs" "gt64 f zero64"
      by (auto simp: list_ex_iff positive_iff)
    with top have "\<not> gt64 f v'" by blast
    with f orig show "gt64 v' zero64" by auto
  next
    assume "gt64 v' zero64"
    with orig have "VFloat v' \<in> set vs" by (auto simp: gt64_irrefl)
    with \<open>gt64 v' zero64\<close> show "list_ex positive vs"
      by (auto simp: list_ex_iff positive_iff)
  qed
  show ?thesis
  proof (cases "VBool False \<notin> set vs \<and> gt64 v' zero64")
    case True
    with orig have "VFloat v' \<in> set vs" by (auto simp: gt64_irrefl)
    with True top have "is_max_number vs v'"
      by (auto simp: is_max_number_def list_all_iff exceeds_def split: val.splits)
    with True run pos show ?thesis
      by (simp add: and_v_def)
  next
    case False
    with run pos show ?thesis
      by (auto simp: and_v_def)
  qed
qed

text \<open>An operand that is neither a boolean nor a number stops the loop with a panic.\<close>

lemma and_loop_mismatch:
  "\<not> list_all and_operand vs \<Longrightarrow> and_loop vs r v = Inl TypeAssertion"
proof (induction vs arbitrary: r v)
  case Nil
  then show ?case by simp
next
  case (Cons x xs)
  show ?case
  proof (cases "and_operand x")
    case True
    with Cons.prems have "\<not> list_all and_operand xs" by simp
    then have "and_loop xs r' v' = Inl TypeAssertion" for r' v'
      by (rule Cons.IH)
    with True show ?thesis
      by (auto simp: and_operand_cases isBool_iff)
  next
    case False
    then show ?thesis
      by (cases x) (simp_all add: and_operand_cases isBool_iff)
  qed
qed

text \<open>
  The dispatcher sends a list of one operand to \<^verbatim>\<open>unary\<close>, after asserting that the
  operand is a boolean. For \<^verbatim>\<open>and\<close> this differs from the scan in one case only, the list
  of one number.
\<close>

lemma operation_and:
  "\<not> single_number vs \<Longrightarrow> operation sc ''and'' (VSlice vs) data = and_v vs"
proof (cases "length vs = 1")
  case False
  then show ?thesis by (simp add: eval_defs)
next
  case True
  then obtain x where vs: "vs = [x]"
    by (cases vs) simp_all
  assume "\<not> single_number vs"
  with vs show ?thesis
    by (cases x)
       (simp_all add: single_number_def eval_defs unary_def and_v_def zero64_def)
qed

text \<open>
  C3 says, for every list of operands given to \<^verbatim>\<open>and\<close>, that the result is the greatest
  number when all operands are truthy and a positive number was met, and the boolean
  result otherwise. Three lists, for which the code does something else:
  \<^item> \<^verbatim>\<open>[true, 0, 5]\<close>: the operand 0 is not truthy, and the result is the number 5;
  \<^item> \<^verbatim>\<open>[true, "x"]\<close>: the evaluation stops with a failed type assertion;
  \<^item> \<^verbatim>\<open>[5]\<close>: the greatest number is 5, and the evaluation stops with a failed type
    assertion, since the list of one operand goes to \<^verbatim>\<open>unary\<close> as a boolean.
\<close>

theorem and_returns_maximum_counterexample:
  "\<not> positive (VFloat (Fin 0))
   \<and> apply_v sample_strconv
        (VMap [(''and'', VSlice [VBool True, VFloat (Fin 0), VFloat (Fin 5)])]) (VMap [])
       = Inr (VFloat (Fin 5))
   \<and> apply_v sample_strconv (VMap [(''and'', VSlice [VBool True, VString ''x''])]) (VMap [])
       = Inl TypeAssertion
   \<and> is_max_number [VFloat (Fin 5)] (Fin 5)
   \<and> apply_v sample_strconv (VMap [(''and'', VSlice [VFloat (Fin 5)])]) (VMap [])
       = Inl TypeAssertion"
  by (auto simp: eval_defs and_v_def positive_iff is_max_number_def exceeds_def zero64_def)

text \<open>
  C3 as amended, for every list of operands given to \<^verbatim>\<open>and\<close> other than a list of one
  number. If some operand is neither a boolean nor a number, the evaluation stops with
  a failed type assertion. Otherwise the scan returns the greatest number of the list
  when no boolean of the list is false and some number of the list is positive, and
  else the boolean that says whether no boolean of the list is false; so a list whose
  booleans are all true and which holds a positive number gives its greatest number,
  not \<^verbatim>\<open>true\<close>.
\<close>

theorem and_returns_maximum:
  "\<not> single_number vs \<longrightarrow>
     (list_all and_operand vs \<longrightarrow>
        (\<exists>r. operation sc ''and'' (VSlice vs) data = Inr r
          \<and> (if VBool False \<notin> set vs \<and> list_ex positive vs
              then \<exists>m. r = VFloat m \<and> is_max_number vs m
              else r = VBool (VBool False \<notin> set vs))))
     \<and> (\<not> list_all and_operand vs \<longrightarrow>
          operation sc ''and'' (VSlice vs) data = Inl TypeAssertion)"
proof (intro impI conjI)
  assume n: "\<not> single_number vs"
  show "\<exists>r. operation sc ''and'' (VSlice vs) data = Inr r
          \<and> (if VBool False \<notin> set vs \<and> list_ex positive vs
              then \<exists>m. r = VFloat m \<and> is_max_number vs m
              else r = VBool (VBool False \<notin> set vs))"
    if "list_all and_operand vs"
    using and_v_result [OF that] operation_and [OF n] by simp
  show "operation sc ''and'' (VSlice vs) data = Inl TypeAssertion"
    if "\<not> list_all and_operand vs"
    using and_loop_mismatch [OF that] operation_and [OF n] by (simp add: and_v_def)
qed

text \<open>\<^verbatim>\<open>{"and": [true, 3, 7, true]}\<close> is 7, and \<^verbatim>\<open>{"and": [true, null]}\<close> is a panic.\<close>

theorem and_returns_maximum_witness:
  "\<not> single_number [VBool True, VFloat (Fin 3), VFloat (Fin 7), VBool True]
   \<and> list_all and_operand [VBool True, VFloat (Fin 3), VFloat (Fin 7), VBool True]
   \<and> is_max_number [VBool True, VFloat (Fin 3), VFloat (Fin 7), VBool True] (Fin 7)
   \<and> operation sample_strconv ''and''
        (VSlice [VBool True, VFloat (Fin 3), VFloat (Fin 7), VBool True]) VNil
      = Inr (VFloat (Fin 7))
   \<and> \<not> single_number [VBool True, VNil]
   \<and> \<not> list_all and_operand [VBool True, VNil]
   \<and> operation sample_strconv ''and'' (VSlice [VBool True, VNil]) VNil = Inl TypeAssertion"
proof -
  let ?vs = "[VBool True, VFloat (Fin 3), VFloat (Fin 7), VBool True]"
  have sn: "\<not> single_number ?vs" "\<not> single_number [VBool True, VNil]"
    by (simp_all add: single_number_def)
  have ops: "list_all and_operand ?vs" "\<not> list_all and_operand [VBool True, VNil]"
    by (auto simp: and_operand_cases)
  have mx: "is_max_number ?vs (Fin 7)"
    by (simp add: is_max_number_def exceeds_def zero64_def)
  have cond: "VBool False \<notin> set ?vs \<and> list_ex positive ?vs"
    by (simp add: positive_iff zero64_def)
  from and_returns_maximum [of ?vs sample_strconv VNil] sn ops cond
  obtain m where "operation sample_strconv ''and'' (VSlice ?vs) VNil = Inr (VFloat m)"
    and "is_max_number ?vs m"
    by auto
  with mx is_max_number_unique have "operation sample_strconv ''and'' (VSlice ?vs) VNil
      = Inr (VFloat (Fin 7))"
    by auto
  moreover from and_returns_maximum [of "[VBool True, VNil]" sample_strconv VNil] sn ops
  have "operation sample_strconv ''and'' (VSlice [VBool True, VNil]) VNil = Inl TypeAssertion"
    by simp
  ultimately show ?thesis
    using sn ops mx by simp
qed

section \<open>A string compared with a value of another kind (C4)\<close>

text \<open>
  C4 says that \<^verbatim>\<open>equals\<close> of a string and a value that is no string is an error that the
  call of \<^verbatim>\<open>Apply\<close> reports and survives. The package has no such error: the failed type
  assertion is a panic, nothing recovers it, and it leaves \<^verbatim>\<open>Apply\<close>, which returns
  neither a result nor an error.
\<close>

theorem equals_string_with_other_kind_counterexample:
  "Apply sample_strconv (VMap [(''=='', VSlice [VString ''a'', VFloat (Fin 1)])]) (VMap [])
     (Pointer True KBool) = Inl TypeAssertion"
  by (simp add: Apply_def eval_defs args2_def equals_def)

text \<open>
  C4 as amended: for a string \<open>a\<close> and a value \<open>b\<close> that is no string, \<^verbatim>\<open>equals\<close> does not
  return false, it stops with a failed type assertion; and the call of \<^verbatim>\<open>Apply\<close> on the
  rule \<^verbatim>\<open>{"==": [a, b]}\<close> (\<open>b\<close> a literal, not a rule) with a valid result argument stops with
  that panic and returns no error.
\<close>

theorem equals_string_with_other_kind:
  "\<not> isString b \<longrightarrow>
     equals sc (VString a) b = Inl TypeAssertion
     \<and> (\<not> isMap b \<longrightarrow> valid_result result \<longrightarrow>
          Apply sc (VMap [(''=='', VSlice [VString a, b])]) data result = Inl TypeAssertion)"
proof (intro impI conjI)
  assume b: "\<not> isString b"
  then show e: "equals sc (VString a) b = Inl TypeAssertion"
    by (cases b) (simp_all add: equals_def isString_iff)
  assume m: "\<not> isMap b" and r: "valid_result result"
  from m have "parseList sc [VString a, b] data = Inr [VString a, b]"
    by (simp add: isMap_iff)
  then have "apply_v sc (VMap [(''=='', VSlice [VString a, b])]) data = Inl TypeAssertion"
    using e by (simp add: eval_defs args2_def)
  with r show "Apply sc (VMap [(''=='', VSlice [VString a, b])]) data result = Inl TypeAssertion"
    by (cases result) (simp_all add: valid_result_def Apply_def isMap_iff)
qed

text \<open>The string \<^verbatim>\<open>"a"\<close> compared with \<^verbatim>\<open>nil\<close>.\<close>

theorem equals_string_with_other_kind_witness:
  "\<not> isString VNil \<and> \<not> isMap VNil \<and> valid_result (Pointer True KInterface)
   \<and> equals sample_strconv (VString ''a'') VNil = Inl TypeAssertion
   \<and> Apply sample_strconv (VMap [(''=='', VSlice [VString ''a'', VNil])]) VNil
        (Pointer True KInterface) = Inl TypeAssertion"
  using equals_string_with_other_kind
    [of VNil sample_strconv "''a''" "Pointer True KInterface" VNil]
  by (simp add: kind_iffs valid_result_def)

section \<open>The key \<^verbatim>\<open>merge\<close> (C5)\<close>

text \<open>
  The dispatcher of \<^verbatim>\<open>jsonlogic.go\<close> has no branch for \<^verbatim>\<open>merge\<close>: two arrays under that
  key, as under any key it does not know, reach the last line of \<^verbatim>\<open>operation\<close> and are
  compared with \<^verbatim>\<open>equals\<close>, which is false for arrays.
\<close>

lemma operation_knows_no_merge:
  "operation sc ''merge'' (VSlice [VSlice xs, VSlice ys]) data = Inr (VBool False)"
  by (simp add: eval_defs args2_def equals_def)

text \<open>
  C5 says that \<^verbatim>\<open>merge\<close> flattens its array operands by one level, so that
  \<^verbatim>\<open>{"merge": [[["a","b"]],[["c","d"]]]}\<close> is \<^verbatim>\<open>[["a","b"],["c","d"]]\<close>, and the test
  \<^verbatim>\<open>TestMergeArrayOfArrays\<close> of the repository asks for the same. The evaluator gives
  \<^verbatim>\<open>false\<close> for that rule.
\<close>

theorem merge_example_gives_false:
  "apply_v sample_strconv
     (VMap [(''merge'', VSlice [VSlice [VSlice [VString ''a'', VString ''b'']],
                                VSlice [VSlice [VString ''c'', VString ''d'']]])])
     (VMap [])
   = Inr (VBool False)"
  by (simp add: eval_defs args2_def equals_def)

section \<open>The operator \<^verbatim>\<open>in\<close> (C6)\<close>

lemma has_prefix_iff: "has_prefix s p = (\<exists>ss. s = p @ ss)"
  by (induction s p rule: has_prefix.induct) auto

lemma contains_iff: "contains h n = (\<exists>ps ss. h = ps @ n @ ss)"
proof (induction h)
  case Nil
  then show ?case by auto
next
  case (Cons x h)
  have "(\<exists>ps ss. x # h = ps @ n @ ss) = ((\<exists>ss. x # h = n @ ss) \<or> (\<exists>ps ss. h = ps @ n @ ss))"
  proof
    assume "\<exists>ps ss. x # h = ps @ n @ ss"
    then obtain ps ss where *: "x # h = ps @ n @ ss" by blast
    show "(\<exists>ss. x # h = n @ ss) \<or> (\<exists>ps ss. h = ps @ n @ ss)"
    proof (cases ps)
      case Nil
      with * show ?thesis by auto
    next
      case (Cons q qs)
      with * have "h = qs @ n @ ss" by simp
      then show ?thesis by blast
    qed
  next
    assume "(\<exists>ss. x # h = n @ ss) \<or> (\<exists>ps ss. h = ps @ n @ ss)"
    then show "\<exists>ps ss. x # h = ps @ n @ ss"
    proof
      assume "\<exists>ss. x # h = n @ ss"
      then obtain ss where "x # h = [] @ n @ ss" by auto
      then show ?thesis by blast
    next
      assume "\<exists>ps ss. h = ps @ n @ ss"
      then obtain ps ss where "x # h = (x # ps) @ n @ ss" by auto
      then show ?thesis by blast
    qed
  qed
  with Cons show ?case by (simp add: has_prefix_iff)
qed

lemma eq64_iff: "eq64 x y = (y \<noteq> NaN \<and> x = y)"
  by (cases x; cases y) simp_all

lemma iface_eq_comparable:
  "comparable x \<Longrightarrow> iface_eq v x = Inr (x \<noteq> VFloat NaN \<and> v = x)"
  by (cases v; cases x) (auto simp: comparable_def kind_iffs eq64_iff)

lemma in_loop_comparable:
  "comparable x \<Longrightarrow> in_loop vs x = Inr (x \<noteq> VFloat NaN \<and> x \<in> set vs)"
  by (induction vs) (auto simp: iface_eq_comparable)

text \<open>
  A needle that is an array or an object equals no element. The comparison with an
  element of its own kind is a panic, the comparison with any other element is false.
\<close>

lemma iface_eq_uncomparable:
  "\<not> comparable x \<Longrightarrow>
   iface_eq v x = (if kindOf v = kindOf x then Inl Uncomparable else Inr False)"
  by (cases v; cases x) (auto simp: comparable_def kind_iffs)

lemma in_loop_uncomparable:
  "\<not> comparable x \<Longrightarrow>
   in_loop vs x =
     (if list_ex (\<lambda>v. kindOf v = kindOf x) vs then Inl Uncomparable else Inr False)"
  by (induction vs) (simp_all add: iface_eq_uncomparable)

text \<open>
  C6 says, for every needle, that \<^verbatim>\<open>in\<close> with an array is true exactly when some element
  equals the needle. The array \<^verbatim>\<open>[1]\<close> is an element of \<^verbatim>\<open>[[1]]\<close>, and \<^verbatim>\<open>{"in": [[1], [[1]]]}\<close>
  is not true: Go does not compare two arrays, the comparison is a panic.
\<close>

theorem in_substring_or_member_counterexample:
  "VSlice [VFloat (Fin 1)] \<in> set [VSlice [VFloat (Fin 1)]]
   \<and> apply_v sample_strconv
        (VMap [(''in'', VSlice [VSlice [VFloat (Fin 1)], VSlice [VSlice [VFloat (Fin 1)]]])])
        (VMap [])
       = Inl Uncomparable"
  by (simp add: eval_defs args2_def in_v_def)

text \<open>
  C6 as amended. In a string, \<^verbatim>\<open>in\<close> looks for the needle as a substring, and the needle
  has to be a string (another needle is a failed type assertion). In an array, for a
  needle that is neither an array nor an object, it is true exactly when some element is
  the needle, of the same kind and the same value, nothing being coerced (and NaN being
  equal to nothing, as in Go): the number 2 is in \<^verbatim>\<open>[1,2,3]\<close>, the string \<^verbatim>\<open>"2"\<close> is not.
  A needle that is an array or an object is never found: the evaluation stops with a
  panic if the array holds an element of the kind of the needle, and is false if not.
\<close>

theorem in_substring_or_member:
  "in_v (VString n) (VString h) = Inr (\<exists>ps ss. h = ps @ n @ ss)
   \<and> (\<not> isString x \<longrightarrow> in_v x (VString h) = Inl TypeAssertion)
   \<and> (comparable x \<longrightarrow> in_v x (VSlice vs) = Inr (x \<noteq> VFloat NaN \<and> x \<in> set vs))
   \<and> (\<not> comparable x \<longrightarrow>
        in_v x (VSlice vs) =
          (if list_ex (\<lambda>v. kindOf v = kindOf x) vs then Inl Uncomparable else Inr False))
   \<and> apply_v sc (VMap [(''in'', VSlice [VFloat (Fin 2),
          VSlice [VFloat (Fin 1), VFloat (Fin 2), VFloat (Fin 3)]])]) data = Inr (VBool True)
   \<and> apply_v sc (VMap [(''in'', VSlice [VString ''2'',
          VSlice [VFloat (Fin 1), VFloat (Fin 2), VFloat (Fin 3)]])]) data = Inr (VBool False)"
proof -
  have a: "in_v (VString n) (VString h) = Inr (\<exists>ps ss. h = ps @ n @ ss)"
    by (simp add: in_v_def kind_iffs contains_iff)
  have b: "in_v x (VString h) = Inl TypeAssertion" if "\<not> isString x"
    using that by (cases x) (simp_all add: in_v_def kind_iffs)
  have c: "in_v x (VSlice vs) = Inr (x \<noteq> VFloat NaN \<and> x \<in> set vs)" if "comparable x"
    using that by (simp add: in_v_def kind_iffs in_loop_comparable)
  have c': "in_v x (VSlice vs) =
      (if list_ex (\<lambda>v. kindOf v = kindOf x) vs then Inl Uncomparable else Inr False)"
    if "\<not> comparable x"
    using that by (simp add: in_v_def kind_iffs in_loop_uncomparable)
  have d: "apply_v sc (VMap [(''in'', VSlice [VFloat (Fin 2),
          VSlice [VFloat (Fin 1), VFloat (Fin 2), VFloat (Fin 3)]])]) data = Inr (VBool True)"
    by (simp add: eval_defs args2_def in_v_def)
  have e: "apply_v sc (VMap [(''in'', VSlice [VString ''2'',
          VSlice [VFloat (Fin 1), VFloat (Fin 2), VFloat (Fin 3)]])]) data = Inr (VBool False)"
    by (simp add: eval_defs args2_def in_v_def)
  from a b c c' d e show ?thesis by blast
qed

text \<open>
  \<^verbatim>\<open>"c"\<close> in \<^verbatim>\<open>"abcd"\<close>, the number 2 in a string, \<^verbatim>\<open>"2"\<close> in \<^verbatim>\<open>[1, 2, "2"]\<close>, and the array
  \<^verbatim>\<open>[1]\<close> in \<^verbatim>\<open>[1, [1]]\<close> and in \<^verbatim>\<open>[1, "a"]\<close>.
\<close>

theorem in_substring_or_member_witness:
  "in_v (VString ''c'') (VString ''abcd'') = Inr True
   \<and> \<not> isString (VFloat (Fin 2)) \<and> in_v (VFloat (Fin 2)) (VString ''abcd'') = Inl TypeAssertion
   \<and> comparable (VString ''2'')
   \<and> in_v (VString ''2'') (VSlice [VFloat (Fin 1), VFloat (Fin 2), VString ''2'']) = Inr True
   \<and> \<not> comparable (VSlice [VFloat (Fin 1)])
   \<and> in_v (VSlice [VFloat (Fin 1)]) (VSlice [VFloat (Fin 1), VSlice [VFloat (Fin 1)]])
       = Inl Uncomparable
   \<and> in_v (VSlice [VFloat (Fin 1)]) (VSlice [VFloat (Fin 1), VString ''a'']) = Inr False"
proof -
  have "''abcd'' = ''ab'' @ ''c'' @ ''d''" by simp
  then have "\<exists>ps ss. ''abcd'' = ps @ ''c'' @ ss" by blast
  then show ?thesis
    using in_substring_or_member [of "''c''" "''abcd''" "VFloat (Fin 2)"]
      in_substring_or_member [of _ _ "VString ''2''" "[VFloat (Fin 1), VFloat (Fin 2), VString ''2'']"]
      in_substring_or_member [of _ _ "VSlice [VFloat (Fin 1)]"
        "[VFloat (Fin 1), VSlice [VFloat (Fin 1)]]"]
      in_substring_or_member [of _ _ "VSlice [VFloat (Fin 1)]" "[VFloat (Fin 1), VString ''a'']"]
    by (simp add: comparable_def kind_iffs)
qed

section \<open>Variable references\<close>

subsection \<open>The default of a dotted path (C1)\<close>

text \<open>
  The default is returned when the last segment of the path is the one that is missing:
  \<^verbatim>\<open>{"var": ["a.q", 9]}\<close> against \<^verbatim>\<open>{"a": {"b": "c"}}\<close> is 9. It is not returned when the
  walk meets a value that is no object: \<^verbatim>\<open>{"var": ["a.b", 42]}\<close> against \<^verbatim>\<open>{"a": 5}\<close> is \<^verbatim>\<open>nil\<close>.
\<close>

lemma var_default_on_missing_last_segment:
  "apply_v sc (VMap [(''var'', VSlice [VString ''a.q'', VFloat (Fin 9)])])
     (VMap [(''a'', VMap [(''b'', VString ''c'')])])
   = Inr (VFloat (Fin 9))"
  by (simp add: eval_defs)

lemma var_default_lost_behind_scalar:
  "apply_v sc (VMap [(''var'', VSlice [VString ''a.b'', VFloat (Fin 42)])])
     (VMap [(''a'', VFloat (Fin 5))])
   = Inr VNil"
  by (simp add: eval_defs)

text \<open>
  C1 says that a reference \<^verbatim>\<open>[path, default]\<close> falls back to the default when any
  segment of the dotted path resolves to nothing, and that \<^verbatim>\<open>{"var": ["missing.path", 42]}\<close>
  against \<^verbatim>\<open>{}\<close> gives \<^verbatim>\<open>42\<close>. The code gives \<^verbatim>\<open>nil\<close> there: \<^verbatim>\<open>getVarFromData\<close> puts the
  default in the place of the missing first segment, the loop of \<^verbatim>\<open>getVar\<close> goes on to the
  segment \<^verbatim>\<open>path\<close>, and the default \<^verbatim>\<open>42\<close> is no object.
\<close>

theorem var_default_lost_on_dotted_path:
  "apply_v sample_strconv
     (VMap [(''var'', VSlice [VString ''missing.path'', VFloat (Fin 42)])]) (VMap [])
   = Inr VNil"
  by (simp add: eval_defs)

subsection \<open>The empty path (C7)\<close>

text \<open>
  What the code does with the empty path: \<^verbatim>\<open>strings.Split\<close> gives the one segment \<^verbatim>\<open>""\<close>,
  which \<^verbatim>\<open>getVarFromData\<close> looks up as a key. So the result is \<^verbatim>\<open>nil\<close> for every context
  that is neither absent nor an object.
\<close>

lemma var_empty_path_lookup:
  "data \<noteq> VNil \<Longrightarrow> \<not> isMap data \<Longrightarrow>
   apply_v sc (VMap [(''var'', VString [])]) data = Inr VNil"
  by (auto simp: eval_defs)

text \<open>
  C7 says that the empty path resolves to the context itself, so that \<^verbatim>\<open>{"var": ""}\<close>
  against a scalar gives that scalar; the tests of the repository use \<^verbatim>\<open>{"var": ""}\<close> in
  that sense, for the current element of an array of numbers (\<^verbatim>\<open>TestSomeWithLists\<close>,
  \<^verbatim>\<open>TestAllWithLists\<close>, \<^verbatim>\<open>TestNoneWithLists\<close>). Against the number 5 the code gives \<^verbatim>\<open>nil\<close>.
\<close>

theorem var_empty_path_gives_nil:
  "apply_v sample_strconv (VMap [(''var'', VString [])]) (VFloat (Fin 5)) = Inr VNil"
  by (simp add: eval_defs)

subsection \<open>Absent and empty data (C8)\<close>

text \<open>
  C8 says that against absent or empty data a variable resolves to its default or to
  null and to nothing else. With absent data the code looks nothing up: \<^verbatim>\<open>{"var": "a"}\<close>
  evaluates to the string \<^verbatim>\<open>"a"\<close>.
\<close>

theorem var_against_absent_data_counterexample:
  "apply_v sample_strconv (VMap [(''var'', VString ''a'')]) VNil = Inr (VString ''a'')"
  by (simp add: eval_defs)

text \<open>
  C8 as amended: with absent data \<^verbatim>\<open>getVar\<close> returns the operand of \<^verbatim>\<open>var\<close> itself, and
  \<^verbatim>\<open>Apply\<close> returns no error and stores that operand. Against the empty object a path
  given as a string resolves to \<^verbatim>\<open>nil\<close>, and a reference \<^verbatim>\<open>[path, default]\<close> whose path has
  no dot resolves to the default (an \<^verbatim>\<open>int\<close> converted to \<^verbatim>\<open>float64\<close>).
\<close>

theorem var_against_absent_or_empty_data:
  "getVar v VNil = Inr v
   \<and> Apply sc (VMap [(''var'', VString p)]) VNil (Pointer True KInterface)
       = Inr (None, Some (VString p))
   \<and> apply_v sc (VMap [(''var'', VString p)]) (VMap []) = Inr VNil
   \<and> (CHR ''.'' \<notin> set p \<longrightarrow> \<not> isMap d \<longrightarrow>
        apply_v sc (VMap [(''var'', VSlice [VString p, d])]) (VMap []) = Inr (normalized d))"
proof -
  have a: "getVar v VNil = Inr v"
    by (simp add: getVar_def)
  have b: "Apply sc (VMap [(''var'', VString p)]) VNil (Pointer True KInterface)
       = Inr (None, Some (VString p))"
    by (simp add: Apply_def convertToResult_def assignable_def eval_defs)
  have "getVar_loop (split_on CHR ''.'' p) (VMap []) (VString p) = Inr VNil"
  proof (cases "split_on CHR ''.'' p")
    case Nil
    then show ?thesis by (simp add: split_on_nonempty)
  next
    case (Cons q qs)
    show ?thesis
    proof (cases qs)
      case Nil
      with Cons show ?thesis by (simp add: eval_defs)
    next
      case (Cons r rs)
      then have "getVar_loop qs VNil (VString p) = Inr VNil"
        by (intro getVar_loop_nil) (simp_all add: isMap_iff)
      with \<open>split_on CHR ''.'' p = q # qs\<close> show ?thesis by (simp add: eval_defs)
    qed
  qed
  then have c: "apply_v sc (VMap [(''var'', VString p)]) (VMap []) = Inr VNil"
    by (simp add: eval_defs)
  have d: "apply_v sc (VMap [(''var'', VSlice [VString p, d])]) (VMap []) = Inr (normalized d)"
    if "CHR ''.'' \<notin> set p" "\<not> isMap d"
    using that by (cases d) (simp_all add: eval_defs split_on_no_sep normalized_def)
  from a b c d show ?thesis by blast
qed

text \<open>The amended statement at the reference \<^verbatim>\<open>["a", 42]\<close>.\<close>

theorem var_against_absent_or_empty_data_witness:
  "CHR ''.'' \<notin> set ''a'' \<and> \<not> isMap (VFloat (Fin 42))
   \<and> apply_v sample_strconv (VMap [(''var'', VSlice [VString ''a'', VFloat (Fin 42)])]) (VMap [])
       = Inr (VFloat (Fin 42))"
  using var_against_absent_or_empty_data
    [where p = "''a''" and d = "VFloat (Fin 42)" and sc = sample_strconv]
  by (simp add: isMap_iff normalized_def)

subsection \<open>The numeric index (C9)\<close>

text \<open>
  C9: a numeric operand of \<^verbatim>\<open>var\<close> is an index into a context that is an array. An index
  in range gives the element as it is stored, an \<^verbatim>\<open>int\<close> staying an \<^verbatim>\<open>int\<close>; an index out of
  range and a context that is no array stop the evaluation with a panic, and so does a
  numeric index in the place of the path of \<^verbatim>\<open>[path, default]\<close>. The index is the operand
  truncated towards zero; a Go slice has fewer than \<open>2 ^ 63\<close> elements.
\<close>

theorem var_numeric_index:
  "(0 \<le> trunc r \<and> trunc r < int (length xs) \<and> int (length xs) \<le> 2 ^ 63 \<longrightarrow>
      apply_v sc (VMap [(''var'', VFloat (Fin r))]) (VSlice xs) = Inr (xs ! nat (trunc r)))
   \<and> apply_v sc (VMap [(''var'', VFloat (Fin 0))]) (VSlice [VInt 7]) = Inr (VInt 7)
   \<and> apply_v sc (VMap [(''var'', VFloat (Fin 3))]) (VSlice [VInt 7]) = Inl IndexOutOfRange
   \<and> apply_v sc (VMap [(''var'', VFloat (Fin 0))]) (VMap [(''a'', VInt 7)]) = Inl TypeAssertion
   \<and> apply_v sc (VMap [(''var'', VSlice [VFloat (Fin 3), VString ''d''])]) (VSlice [VInt 7])
       = Inl TypeAssertion"
proof -
  have "apply_v sc (VMap [(''var'', VFloat (Fin r))]) (VSlice xs) = Inr (xs ! nat (trunc r))"
    if "0 \<le> trunc r" "trunc r < int (length xs)" "int (length xs) \<le> 2 ^ 63"
  proof -
    from that have "int_of_float64 (Fin r) = Inr (trunc r)" by simp
    with that show ?thesis by (simp add: eval_defs)
  qed
  moreover have "trunc 0 = 0" "trunc 3 = 3"
    by (simp_all add: trunc_def)
  ultimately show ?thesis
    by (simp add: eval_defs)
qed

text \<open>The index \<open>1.5\<close> reads the second element.\<close>

theorem var_numeric_index_witness:
  "0 \<le> trunc (3 / 2) \<and> trunc (3 / 2) < int (length [VInt 7, VString ''x''])
   \<and> int (length [VInt 7, VString ''x'']) \<le> 2 ^ 63
   \<and> apply_v sample_strconv (VMap [(''var'', VFloat (Fin (3 / 2)))])
        (VSlice [VInt 7, VString ''x'']) = Inr (VString ''x'')"
proof -
  have "trunc (3 / 2) = 1"
    by (simp add: trunc_def) linarith
  with var_numeric_index [of "3 / 2" "[VInt 7, VString ''x'']" sample_strconv]
  show ?thesis by simp
qed

section \<open>Errors of the entry point (C10)\<close>

text \<open>
  C10: \<^verbatim>\<open>Apply\<close> returns an error only for a result argument that is no pointer, a nil
  pointer or not settable, and it returns one for each of these; whenever a call with a
  valid result argument returns, the error is \<^verbatim>\<open>nil\<close>, whatever the rule and the data.
\<close>

theorem Apply_error_only_for_result_argument:
  "(Apply sc rules data result = Inr (Some err, stored) \<longrightarrow> \<not> valid_result result)
   \<and> (valid_result result \<longrightarrow> Apply sc rules data result = Inr (e, stored) \<longrightarrow> e = None)
   \<and> (\<not> valid_result result \<longrightarrow> (\<exists>msg. Apply sc rules data result = Inr (Some msg, None)))"
proof (cases result)
  case (Pointer canSet target)
  show ?thesis
  proof (cases canSet)
    case True
    have "e' = None" if "Apply sc rules data result = Inr (e', s')" for e' s'
      using that Pointer True
      by (cases "apply_v sc rules data"; cases "convertToResult target rules";
          cases "convertToResult target (projr (apply_v sc rules data))")
         (auto simp: Apply_def split: if_splits)
    with Pointer True show ?thesis
      by (auto simp: valid_result_def)
  next
    case False
    with Pointer show ?thesis by (simp add: Apply_def valid_result_def)
  qed
qed (simp_all add: Apply_def valid_result_def)

text \<open>A call that returns a result, and a call with a nil pointer.\<close>

theorem Apply_error_only_for_result_argument_witness:
  "valid_result (Pointer True KBool)
   \<and> Apply sample_strconv (VMap [(''<'', VSlice [VFloat (Fin 1), VString ''2''])]) (VMap [])
        (Pointer True KBool) = Inr (None, Some (VBool True))
   \<and> \<not> valid_result NilPointer
   \<and> Apply sample_strconv (VBool True) VNil NilPointer
       = Inr (Some ''Result must be a pointer'', None)"
proof -
  let ?rule = "VMap [(''<'', VSlice [VFloat (Fin 1), VString ''2''])]"
  have 1: "valid_result (Pointer True KBool)" "\<not> valid_result NilPointer"
    by (simp_all add: valid_result_def)
  have "apply_v sample_strconv ?rule (VMap []) = Inr (VBool True)"
    by (simp add: eval_defs args2_def less_v_def parse_or_zero_def sample_strconv_def)
  then obtain e where 2: "Apply sample_strconv ?rule (VMap []) (Pointer True KBool)
      = Inr (e, Some (VBool True))"
    by (simp add: Apply_def convertToResult_def isMap_iff)
  with 1 have "e = None"
    using Apply_error_only_for_result_argument
      [where sc = sample_strconv and rules = ?rule and data = "VMap []"
         and result = "Pointer True KBool" and e = e and stored = "Some (VBool True)"]
    by simp
  moreover have "Apply sample_strconv (VBool True) VNil NilPointer
       = Inr (Some ''Result must be a pointer'', None)"
    by (simp add: Apply_def)
  ultimately show ?thesis
    using 1 2 by simp
qed

end
